theory Spec2Isabelle
  imports Complex_Main "HOL-Library.Finite_Map"
begin

section \<open>The remote authority\<close>

text \<open>
  The requests of \<open>pb.ShenzhenGoClient\<close> that the client code builds. A call to the
  remote authority either succeeds (\<open>None\<close>) or fails with the text of \<open>err.Error()\<close>
  (\<open>Some text\<close>); the responses themselves are discarded by every caller (\<open>_, err := ...\<close>).
\<close>

record node_config =
  cfg_Name :: string
  cfg_Enabled :: bool
  cfg_Wait :: bool
  cfg_Multiplicity :: nat
  cfg_PartType :: string
  cfg_PartCfg :: string

datatype request =
    ConnectPinRequest string string string string
  | DisconnectPinRequest string string string
  | CreateNodeRequest string node_config
  | SetGraphPropertiesRequest string string string bool
  | SaveRequest string

type_synonym client = "request \<Rightarrow> string option"

section \<open>The graph controller (dev/client/controller/graph.go)\<close>

record 'p node =
  node_Name :: string
  node_Enabled :: bool
  node_Wait :: bool
  node_Multiplicity :: nat
  node_Part :: 'p
  node_X :: real
  node_Y :: real

text \<open>
  \<open>model.Graph\<close>: the fields the controller reads and writes. \<open>Nodes\<close> is a Go map, so it is
  finite: a finite map from node names.
\<close>

record 'p graph =
  graph_FilePath :: string
  graph_Name :: string
  graph_PackagePath :: string
  graph_IsCommand :: bool
  graph_Nodes :: "(string, 'p node) fmap"

datatype error = Panic | Error string

subsection \<open>SaveProperties\<close>

text \<open>
  The three values read from the DOM inputs (\<open>graphNameTextInput\<close>,
  \<open>graphPackagePathTextInput\<close>, \<open>graphIsCommandCheckbox\<close>) are arguments. The result is the
  returned error (\<open>None\<close> for \<open>nil\<close>) and the graph afterwards.
\<close>

definition SaveProperties ::
  "client \<Rightarrow> string \<Rightarrow> string \<Rightarrow> bool \<Rightarrow> 'p graph \<Rightarrow> string option \<times> 'p graph" where
  "SaveProperties cl name packagePath isCommand g =
     (case cl (SetGraphPropertiesRequest (graph_FilePath g) name packagePath isCommand) of
        Some err \<Rightarrow> (Some err, g)
      | None \<Rightarrow>
          (None, g\<lparr>graph_Name := name, graph_PackagePath := packagePath,
                    graph_IsCommand := isCommand\<rparr>))"

subsection \<open>CreateNode\<close>

text \<open>
  \<open>strconv.Itoa\<close> on the loop counter, which starts at 2 and only grows: the decimal
  numeral of a natural number. The counter is a Go \<open>int\<close>; it cannot wrap before the node
  map holds \<open>2^63\<close> names, so it is modelled unbounded.
\<close>

definition digit :: "nat \<Rightarrow> char" where
  "digit d = ''0123456789'' ! d"

fun Itoa :: "nat \<Rightarrow> string" where
  "Itoa n = (if n < 10 then [digit n] else Itoa (n div 10) @ [digit (n mod 10)])"

declare Itoa.simps [simp del]

definition candidate :: "string \<Rightarrow> nat \<Rightarrow> string" where
  "candidate partType i = partType @ '' '' @ Itoa i"

text \<open>
  The loop \<open>for i := 2; ; i++\<close> has no bound of its own. It ends because the names it
  tries are pairwise different and the node map is finite; the lemmas below are what the
  termination proof needs. \<open>candidate\<close> is the name tried with counter \<open>i\<close>, and \<open>taken\<close>,
  the set of counters from \<open>i\<close> on whose name is in the map, is the measure of that proof
  only: nothing that runs uses it.
\<close>

lemma digit_inj: "a < 10 \<Longrightarrow> b < 10 \<Longrightarrow> digit a = digit b \<Longrightarrow> a = b"
proof -
  have ten: "n < 10 \<longleftrightarrow> n \<in> {0, 1, 2, 3, 4, 5, 6, 7, 8, 9}" for n :: nat
    by auto
  assume "a < 10" "b < 10" "digit a = digit b"
  then show ?thesis
    unfolding ten digit_def by auto
qed

lemma Itoa_nonempty: "Itoa n \<noteq> []" "[] \<noteq> Itoa n"
  by (subst Itoa.simps, simp)+

lemma Itoa_inj: "Itoa a = Itoa b \<Longrightarrow> a = b"
proof (induction a arbitrary: b rule: Itoa.induct)
  case (1 a)
  show ?case
  proof (cases "a < 10")
    case True
    show ?thesis
    proof (cases "b < 10")
      case b: True
      from "1.prems" True b have "digit a = digit b"
        by (simp add: Itoa.simps [of a] Itoa.simps [of b])
      with True b show ?thesis by (intro digit_inj)
    next
      case b: False
      from "1.prems" True b show ?thesis
        by (simp add: Itoa.simps [of a] Itoa.simps [of b] Itoa_nonempty)
    qed
  next
    case False
    show ?thesis
    proof (cases "b < 10")
      case b: True
      from "1.prems" False b show ?thesis
        by (simp add: Itoa.simps [of a] Itoa.simps [of b] Itoa_nonempty)
    next
      case b: False
      from "1.prems" False b
      have e: "Itoa (a div 10) = Itoa (b div 10)" and d: "digit (a mod 10) = digit (b mod 10)"
        by (simp_all add: Itoa.simps [of a] Itoa.simps [of b])
      from "1.IH" [OF False e] have "a div 10 = b div 10" .
      moreover from d have "a mod 10 = b mod 10"
        by (intro digit_inj) simp_all
      ultimately show ?thesis
        by (metis div_mult_mod_eq)
    qed
  qed
qed

definition taken :: "(string, 'p node) fmap \<Rightarrow> string \<Rightarrow> nat \<Rightarrow> nat set" where
  "taken nodes partType i = {j. i \<le> j \<and> candidate partType j |\<in>| fmdom nodes}"

lemma finite_taken: "finite (taken nodes partType i)"
proof -
  have "inj (candidate partType)"
    by (rule injI) (simp add: candidate_def Itoa_inj)
  then have "finite (candidate partType -` fset (fmdom nodes))"
    by (simp add: finite_vimageI)
  moreover have "taken nodes partType i \<subseteq> candidate partType -` fset (fmdom nodes)"
    by (auto simp: taken_def)
  ultimately show ?thesis
    by (rule rev_finite_subset)
qed

lemma card_taken_step:
  "card (taken nodes partType i) =
     card (taken nodes partType (Suc i)) + (if candidate partType i |\<in>| fmdom nodes then 1 else 0)"
proof -
  have step: "taken nodes partType i =
     (if candidate partType i |\<in>| fmdom nodes then insert i (taken nodes partType (Suc i))
      else taken nodes partType (Suc i))"
    unfolding taken_def by (auto simp: Suc_le_eq le_less)
  have "i \<notin> taken nodes partType (Suc i)"
    by (simp add: taken_def)
  then show ?thesis
    by (subst step) (simp add: finite_taken)
qed

text \<open>
  The name loop of \<open>CreateNode\<close>: \<open>name\<close> is the name being tested, \<open>i\<close> the counter.
  \<^verbatim>\<open>
  name := partType
  for i := 2; ; i++ {
      if _, found := c.graph.Nodes[name]; !found { break }
      name = partType + " " + strconv.Itoa(i)
  }
  \<close>
\<close>

function uniqueName :: "(string, 'p node) fmap \<Rightarrow> string \<Rightarrow> nat \<Rightarrow> string \<Rightarrow> string" where
  "uniqueName nodes partType i name =
     (if name |\<notin>| fmdom nodes then name
      else uniqueName nodes partType (i + 1) (partType @ '' '' @ Itoa i))"
  by pat_completeness auto
termination
proof (relation "measure (\<lambda>(nodes, partType, i, name).
         card (taken nodes partType i) + (if name |\<in>| fmdom nodes then 1 else 0))")
  show "wf (measure (\<lambda>(nodes, partType, i, name).
         card (taken nodes partType i) + (if name |\<in>| fmdom nodes then 1 else 0)))"
    by simp
next
  fix nodes :: "(string, 'p node) fmap" and partType i name
  assume "\<not> name |\<notin>| fmdom nodes"
  then show "((nodes, partType, i + 1, partType @ '' '' @ Itoa i), nodes, partType, i, name)
       \<in> measure (\<lambda>(nodes, partType, i, name).
            card (taken nodes partType i) + (if name |\<in>| fmdom nodes then 1 else 0))"
    using card_taken_step [of nodes partType i] by (simp add: candidate_def)
qed

declare uniqueName.simps [simp del]

text \<open>
  \<open>model.PartTypes\<close> and \<open>model.MarshalPart\<close> are not part of the controller: they are
  parameters. \<open>PartTypes partType\<close> is the part that \<open>model.PartTypes[partType].New()\<close>
  makes; a part type that is not registered gives a nil \<open>*PartType\<close>, and calling \<open>New\<close>
  through it is taken to panic. \<open>MarshalPart\<close> returns the error text or the marshalled
  configuration (\<open>pm.Part\<close>).

  The result is what the function returns (\<open>(nil, err)\<close> as \<open>Inl\<close>, \<open>(n, nil)\<close> as \<open>Inr n\<close>)
  together with the controller's graph afterwards.
\<close>

definition CreateNode ::
  "client \<Rightarrow> (string \<rightharpoonup> 'p) \<Rightarrow> ('p \<Rightarrow> string + string) \<Rightarrow> string \<Rightarrow> 'p graph
     \<Rightarrow> (error + 'p node) \<times> 'p graph" where
  "CreateNode cl PartTypes MarshalPart partType g =
     (let name = uniqueName (graph_Nodes g) partType 2 partType in
      case PartTypes partType of
        None \<Rightarrow> (Inl Panic, g)
      | Some pt \<Rightarrow>
          (case MarshalPart pt of
             Inl err \<Rightarrow> (Inl (Error (''marshalling part: '' @ err)), g)
           | Inr pm \<Rightarrow>
               (let n = \<lparr>node_Name = name, node_Enabled = True, node_Wait = True,
                          node_Multiplicity = 1, node_Part = pt, node_X = 150, node_Y = 150\<rparr>
                in case cl (CreateNodeRequest (graph_FilePath g)
                              \<lparr>cfg_Name = node_Name n, cfg_Enabled = node_Enabled n,
                               cfg_Wait = node_Wait n, cfg_Multiplicity = node_Multiplicity n,
                               cfg_PartType = partType, cfg_PartCfg = pm\<rparr>) of
                     Some err \<Rightarrow> (Inl (Error err), g)
                   | None \<Rightarrow> (Inr n, g))))"

section \<open>The diagram and its pins (pin.go of package view; view/svg/main.go)\<close>

text \<open>
  Pins, channels and nodes are Go objects reached through pointers. The model is a heap:
  an object is named by its address (a natural number) and the view maps every address
  to the object there. A pointer that may be nil (\<open>Pin.ch\<close>) is an \<open>option\<close>.
  The DOM elements of a pin (\<open>circ\<close>, \<open>l\<close>, \<open>c\<close>, \<open>nametag\<close>) and every call that only
  draws (\<open>SetAttribute\<close>, \<open>Show\<close>, \<open>Hide\<close>, \<open>setColour\<close>, \<open>reposition\<close>) belong to the canvas
  and are left out.
\<close>

record pin =
  pin_Name :: string
  pin_Type :: string
  pin_input :: bool
  pin_node :: nat
  pin_ch :: "nat option"

text \<open>
  \<open>Channel\<close> is declared outside pin.go; these are the fields pin.go uses:
  \<open>channel.Name\<close>, \<open>channel.Type\<close>, \<open>Pins\<close> and \<open>created\<close>. \<open>Pins\<close> is a Go
  \<open>map[*Pin]struct{}\<close>, a set of pins: the list of its keys. \<open>len\<close> counts the keys,
  \<open>delete\<close> is \<open>removeAll\<close>, and \<open>Pins[p] = struct{}{}\<close> is \<open>List.insert\<close>.
\<close>

record channel =
  chan_Name :: string
  chan_Type :: string
  chan_Pins :: "nat list"
  chan_created :: bool

definition len :: "nat list \<Rightarrow> nat" where
  "len keys = card (set keys)"

text \<open>
  \<open>Point\<close> is the interface that \<open>nearestPoint\<close> returns and the type switches of
  pin.go take apart; \<open>draggable\<close> is the type of \<open>dragItem\<close>, and pins are the only
  items that pin.go stores there.
\<close>

datatype point = PinPoint nat | ChannelPoint nat

datatype draggable = DragPin nat

text \<open>
  \<open>go p.reallyConnect()\<close> and \<open>go p.reallyDisconnect()\<close> start a goroutine and return at
  once. A started goroutine is kept in \<open>view_goroutines\<close> until the scheduler runs it
  (\<open>run\<close> below); the requests that goroutines have sent are logged in \<open>view_sent\<close>, and
  \<open>view_client\<close> is the answer of the remote authority to each request. A goroutine
  reads the pin when it runs; the call to the remote authority and the handling of its
  answer are one step of the model.
\<close>

datatype goroutine = ReallyConnect nat | ReallyDisconnect nat

record label =
  label_text :: string
  label_x :: real
  label_y :: real
  label_shown :: bool

record view =
  view_pins :: "nat \<Rightarrow> pin"
  view_channels :: "nat \<Rightarrow> channel"
  view_nodes :: "nat \<Rightarrow> string"
  view_FilePath :: string
  view_Channels :: "string \<rightharpoonup> nat"
  view_dragItem :: "draggable option"
  view_errLabel :: label
  view_client :: client
  view_sent :: "request list"
  view_goroutines :: "goroutine list"

definition snapQuad :: real where
  "snapQuad = 144"

text \<open>
  \<open>setError\<close> and \<open>clearError\<close> of the diagram, as view/svg/main.go has them:
  \<open>errLabel.moveTo(x+4, y-36)\<close>, \<open>errLabel.setText(err)\<close>, \<open>errLabel.show()\<close>, and
  \<open>errLabel.hide()\<close>. The label records where it was moved to. Coordinates are
  \<open>float64\<close> in the source and reals here: the handlers only add the two offsets to them
  and compare a squared distance with \<open>snapQuad\<close>.
\<close>

definition clearError :: "view \<Rightarrow> view" where
  "clearError st = st\<lparr>view_errLabel := (view_errLabel st)\<lparr>label_shown := False\<rparr>\<rparr>"

definition setError :: "string \<Rightarrow> real \<Rightarrow> real \<Rightarrow> view \<Rightarrow> view" where
  "setError err x y st =
     (if err = [] then clearError st
      else st\<lparr>view_errLabel :=
                \<lparr>label_text = err, label_x = x + 4, label_y = y - 36, label_shown = True\<rparr>\<rparr>)"

definition go :: "goroutine \<Rightarrow> view \<Rightarrow> view" where
  "go g st = st\<lparr>view_goroutines := view_goroutines st @ [g]\<rparr>"

definition send :: "request \<Rightarrow> view \<Rightarrow> view" where
  "send req st = st\<lparr>view_sent := view_sent st @ [req]\<rparr>"

subsection \<open>The connection validator\<close>

text \<open>
  \<open>Pin.checkConnectionTo\<close>; the result is the text of the returned error, \<open>None\<close> for
  \<open>nil\<close>. The loop over \<open>q.Pins\<close> leaves \<open>same\<close> true exactly when every attached pin has
  the direction of \<open>p\<close>.
\<close>

function checkConnectionTo :: "view \<Rightarrow> nat \<Rightarrow> point \<Rightarrow> string option" where
  "checkConnectionTo st p (PinPoint q) =
     (let P = view_pins st p; Q = view_pins st q in
      if pin_Type Q \<noteq> pin_Type P then
        Some (''mismatching types ['' @ pin_Type P @ '' != '' @ pin_Type Q @ '']'')
      else
        (case pin_ch Q of
           Some c \<Rightarrow> checkConnectionTo st p (ChannelPoint c)
         | None \<Rightarrow>
             if pin_input P = pin_input Q then Some ''both pins have the same direction''
             else if pin_node P = pin_node Q then Some ''both pins are on the same goroutine''
             else None))"
| "checkConnectionTo st p (ChannelPoint c) =
     (let P = view_pins st p; C = view_channels st c in
      if chan_Type C \<noteq> pin_Type P then
        Some (''mismatching types ['' @ pin_Type P @ '' != '' @ chan_Type C @ '']'')
      else if list_all (\<lambda>r. pin_input (view_pins st r) = pin_input P) (chan_Pins C) then
        Some ''must connect at least one input and one output''
      else None)"
  by pat_completeness auto
termination
  by (relation "measure (\<lambda>(st, p, q). case q of PinPoint _ \<Rightarrow> 1 | ChannelPoint _ \<Rightarrow> 0)") auto

subsection \<open>The goroutines\<close>

text \<open>
  The bodies of \<open>Pin.reallyConnect\<close> and \<open>Pin.reallyDisconnect\<close>. \<open>reallyConnect\<close> reads
  \<open>p.ch.channel.Name\<close>: with \<open>p.ch\<close> nil it panics, which is the result \<open>None\<close>.
\<close>

definition reallyConnect :: "nat \<Rightarrow> view \<Rightarrow> view option" where
  "reallyConnect p st =
     (let P = view_pins st p in
      case pin_ch P of
        None \<Rightarrow> None
      | Some c \<Rightarrow>
          (let req = ConnectPinRequest (view_FilePath st) (view_nodes st (pin_node P))
                       (pin_Name P) (chan_Name (view_channels st c))
           in case view_client st req of
                Some err \<Rightarrow> Some (setError (''Couldn't connect: '' @ err) 0 0 (send req st))
              | None \<Rightarrow> Some (send req st)))"

definition reallyDisconnect :: "nat \<Rightarrow> view \<Rightarrow> view" where
  "reallyDisconnect p st =
     (let P = view_pins st p;
          req = DisconnectPinRequest (view_FilePath st) (view_nodes st (pin_node P)) (pin_Name P)
      in case view_client st req of
           Some err \<Rightarrow> setError (''Couldn't disconnect: '' @ err) 0 0 (send req st)
         | None \<Rightarrow> send req st)"

fun run :: "goroutine \<Rightarrow> view \<Rightarrow> view option" where
  "run (ReallyConnect p) st = reallyConnect p st"
| "run (ReallyDisconnect p) st = Some (reallyDisconnect p st)"

subsection \<open>Connecting and disconnecting\<close>

definition set_ch :: "nat \<Rightarrow> nat option \<Rightarrow> view \<Rightarrow> view" where
  "set_ch p c st = st\<lparr>view_pins := (view_pins st)(p := (view_pins st p)\<lparr>pin_ch := c\<rparr>)\<rparr>"

definition set_Pins :: "nat \<Rightarrow> nat list \<Rightarrow> view \<Rightarrow> view" where
  "set_Pins c keys st =
     st\<lparr>view_channels := (view_channels st)(c := (view_channels st c)\<lparr>chan_Pins := keys\<rparr>)\<rparr>"

text \<open>
  \<open>Pin.disconnect\<close>:
  \<^verbatim>\<open>
  if p.ch == nil { return }
  go p.reallyDisconnect()
  delete(p.ch.Pins, p)
  if len(p.ch.Pins) < 2 {
      for q := range p.ch.Pins { q.ch = nil }
      delete(p.node.view.graph.Channels, p.ch.channel.Name)
  }
  p.ch = nil
  \<close>
\<close>

definition disconnect :: "nat \<Rightarrow> view \<Rightarrow> view" where
  "disconnect p st =
     (case pin_ch (view_pins st p) of
        None \<Rightarrow> st
      | Some c \<Rightarrow>
          (let st1 = go (ReallyDisconnect p) st;
               st2 = set_Pins c (removeAll p (chan_Pins (view_channels st1 c))) st1;
               st3 = (if len (chan_Pins (view_channels st2 c)) < 2 then
                        (let s = fold (\<lambda>q. set_ch q None) (chan_Pins (view_channels st2 c)) st2
                         in s\<lparr>view_Channels :=
                                (view_Channels s)(chan_Name (view_channels s c) := None)\<rparr>)
                      else st2)
           in set_ch p None st3))"

text \<open>
  \<open>Pin.connectTo\<close>. \<open>View.createChannel\<close> is not part of pin.go: it is the parameter
  \<open>createChannel\<close>, which returns the address of the new channel and the view that
  holds it.
\<close>

function connectTo ::
  "(nat \<Rightarrow> nat \<Rightarrow> view \<Rightarrow> nat \<times> view) \<Rightarrow> nat \<Rightarrow> point \<Rightarrow> view \<Rightarrow> view" where
  "connectTo createChannel p (PinPoint q) st =
     (let st1 = (if pin_ch (view_pins st p) \<noteq> None \<and>
                    pin_ch (view_pins st p) \<noteq> pin_ch (view_pins st q)
                 then disconnect p st else st)
      in case pin_ch (view_pins st1 q) of
           Some c \<Rightarrow> connectTo createChannel p (ChannelPoint c) st1
         | None \<Rightarrow>
             (let (ch, st2) = createChannel p q st1;
                  st3 = set_ch q (Some ch) (set_ch p (Some ch) st2)
              in st3\<lparr>view_Channels :=
                       (view_Channels st3)(chan_Name (view_channels st3 ch) \<mapsto> ch)\<rparr>))"
| "connectTo createChannel p (ChannelPoint c) st =
     (let st1 = (if pin_ch (view_pins st p) \<noteq> None \<and> pin_ch (view_pins st p) \<noteq> Some c
                 then disconnect p st else st);
          st2 = set_ch p (Some c) st1
      in set_Pins c (List.insert p (chan_Pins (view_channels st2 c))) st2)"
  by pat_completeness auto
termination
  by (relation "measure (\<lambda>(cc, p, q, st). case q of PinPoint _ \<Rightarrow> 1 | ChannelPoint _ \<Rightarrow> 0)") auto

subsection \<open>The drag handlers\<close>

text \<open>
  What \<open>disconnect\<close> leaves behind, as far as the termination of \<open>dragStart\<close> needs it:
  when fewer than two pins stay on the channel, each of them has lost its channel.
\<close>

lemma fold_set_ch_pins:
  "view_pins (fold (\<lambda>q. set_ch q None) keys st) =
     (\<lambda>r. if r \<in> set keys then (view_pins st r)\<lparr>pin_ch := None\<rparr> else view_pins st r)"
  by (induction keys arbitrary: st) (auto simp: set_ch_def fun_eq_iff)

lemma fold_set_ch_rest:
  "view_channels (fold (\<lambda>q. set_ch q None) keys st) = view_channels st"
  "view_Channels (fold (\<lambda>q. set_ch q None) keys st) = view_Channels st"
  "view_goroutines (fold (\<lambda>q. set_ch q None) keys st) = view_goroutines st"
  "view_nodes (fold (\<lambda>q. set_ch q None) keys st) = view_nodes st"
  "view_FilePath (fold (\<lambda>q. set_ch q None) keys st) = view_FilePath st"
  "view_dragItem (fold (\<lambda>q. set_ch q None) keys st) = view_dragItem st"
  "view_errLabel (fold (\<lambda>q. set_ch q None) keys st) = view_errLabel st"
  "view_client (fold (\<lambda>q. set_ch q None) keys st) = view_client st"
  "view_sent (fold (\<lambda>q. set_ch q None) keys st) = view_sent st"
  by (induction keys arbitrary: st; simp add: set_ch_def)+

lemma disconnect_Pins:
  "pin_ch (view_pins st p) = Some c \<Longrightarrow>
   chan_Pins (view_channels (disconnect p st) c) = removeAll p (chan_Pins (view_channels st c))"
  by (simp add: disconnect_def Let_def go_def set_Pins_def set_ch_def fold_set_ch_rest)

lemma disconnect_nils:
  "pin_ch (view_pins st p) = Some c \<Longrightarrow>
   len (removeAll p (chan_Pins (view_channels st c))) < 2 \<Longrightarrow>
   q \<in> set (removeAll p (chan_Pins (view_channels st c))) \<Longrightarrow>
   pin_ch (view_pins (disconnect p st) q) = None"
  by (simp add: disconnect_def Let_def go_def set_Pins_def set_ch_def fold_set_ch_pins)

text \<open>
  \<open>Pin.dragStart\<close>. An event is the cursor position that \<open>cursorPos(e)\<close> reads from it.
  \<open>Channel.dragStart\<close> is not part of pin.go: it is the parameter \<open>ch_dragStart\<close>.
  \<^verbatim>\<open>
  if ch := p.ch; ch != nil {
      p.disconnect()
      if len(ch.Pins) > 1 { ch.dragStart(e); return }
      for q := range ch.Pins { q.dragStart(e); return }
  }
  p.node.view.diagram.dragItem = p
  \<close>
\<close>

function dragStart ::
  "(nat \<Rightarrow> real \<times> real \<Rightarrow> view \<Rightarrow> view) \<Rightarrow> nat \<Rightarrow> real \<times> real \<Rightarrow> view \<Rightarrow> view" where
  "dragStart ch_dragStart p e st =
     (case pin_ch (view_pins st p) of
        Some ch \<Rightarrow>
          (let st' = disconnect p st in
           if len (chan_Pins (view_channels st' ch)) > 1 then ch_dragStart ch e st'
           else
             (case chan_Pins (view_channels st' ch) of
                q # _ \<Rightarrow> dragStart ch_dragStart q e st'
              | [] \<Rightarrow> st'\<lparr>view_dragItem := Some (DragPin p)\<rparr>))
      | None \<Rightarrow> st\<lparr>view_dragItem := Some (DragPin p)\<rparr>)"
  by pat_completeness auto
termination
proof (relation "measure (\<lambda>(h, p, e, st). case pin_ch (view_pins st p) of None \<Rightarrow> 0 | Some _ \<Rightarrow> 1)")
  show "wf (measure (\<lambda>(h, p, e, st). case pin_ch (view_pins st p) of None \<Rightarrow> 0 | Some _ \<Rightarrow> (1::nat)))"
    by simp
next
  fix ch_dragStart :: "nat \<Rightarrow> real \<times> real \<Rightarrow> view \<Rightarrow> view"
    and p e st ch st' q keys
  assume a: "pin_ch (view_pins st p) = Some ch" "st' = disconnect p st"
    "\<not> 1 < len (chan_Pins (view_channels st' ch))"
    "chan_Pins (view_channels st' ch) = q # keys"
  then have "pin_ch (view_pins (disconnect p st) q) = None"
    by (intro disconnect_nils [of st p ch]) (simp_all add: disconnect_Pins)
  with a show "((ch_dragStart, q, e, st'), ch_dragStart, p, e, st)
      \<in> measure (\<lambda>(h, p, e, st). case pin_ch (view_pins st p) of None \<Rightarrow> 0 | Some _ \<Rightarrow> 1)"
    by simp
qed

declare dragStart.simps [simp del]

text \<open>
  \<open>Pin.drag\<close> with its closure \<open>noSnap\<close>. \<open>Graph.nearestPoint\<close> is not part of pin.go: it
  is the parameter \<open>nearestPoint\<close>, which returns the squared distance and the point.
\<close>

definition noSnap :: "nat \<Rightarrow> view \<Rightarrow> view" where
  "noSnap p st = (case pin_ch (view_pins st p) of Some _ \<Rightarrow> disconnect p st | None \<Rightarrow> st)"

definition drag ::
  "(view \<Rightarrow> real \<Rightarrow> real \<Rightarrow> real \<times> point) \<Rightarrow> (nat \<Rightarrow> nat \<Rightarrow> view \<Rightarrow> nat \<times> view) \<Rightarrow>
     nat \<Rightarrow> real \<times> real \<Rightarrow> view \<Rightarrow> view" where
  "drag nearestPoint createChannel p e st =
     (let (x, y) = e; (d, q) = nearestPoint st x y in
      if q = PinPoint p \<or> d \<ge> snapQuad then noSnap p (clearError st)
      else
        (case checkConnectionTo st p q of
           Some err \<Rightarrow> noSnap p (setError (''Can't connect: '' @ err) x y st)
         | None \<Rightarrow> clearError (connectTo createChannel p q st)))"

text \<open>
  \<open>Pin.drop\<close>. \<open>Channel.commit\<close> is not part of pin.go: it is the parameter \<open>commit\<close>,
  which takes the address of the channel.
  \<^verbatim>\<open>
  p.node.view.diagram.clearError()
  if p.ch == nil { go p.reallyDisconnect(); return }
  if p.ch.created { go p.reallyConnect() }
  p.ch.commit()
  \<close>
\<close>

definition drop :: "(nat \<Rightarrow> view \<Rightarrow> view) \<Rightarrow> nat \<Rightarrow> real \<times> real \<Rightarrow> view \<Rightarrow> view" where
  "drop commit p e st =
     (let st1 = clearError st in
      case pin_ch (view_pins st1 p) of
        None \<Rightarrow> go (ReallyDisconnect p) st1
      | Some c \<Rightarrow>
          commit c (if chan_created (view_channels st1 c) then go (ReallyConnect p) st1 else st1))"

section \<open>An example graph\<close>

definition demo_node :: "unit node" where
  "demo_node = \<lparr>node_Name = ''Gen'', node_Enabled = True, node_Wait = True,
     node_Multiplicity = 1, node_Part = (), node_X = 10, node_Y = 20\<rparr>"

definition demo_graph :: "unit graph" where
  "demo_graph = \<lparr>graph_FilePath = ''demo.szgo'', graph_Name = ''Demo'',
     graph_PackagePath = ''demo'', graph_IsCommand = False,
     graph_Nodes =
       fmupd ''Gen'' demo_node (fmupd ''Gen 2'' (demo_node\<lparr>node_Name := ''Gen 2''\<rparr>) fmempty)\<rparr>"

section \<open>Parts of the view outside pin.go\<close>

text \<open>
  Modelled from the spec: \<open>View.createChannel\<close> is not under src/. Section 4.4 has the drag
  "create ... the Channel; mark it provisional if newly created", section 3 gives a channel
  the type of its pins, and the scenario of section 8 creates "a new provisional Channel
  ... containing {A,B}". The spec names neither the address nor the name of the new
  channel: both are arguments.
\<close>

definition View_createChannel :: "nat \<Rightarrow> string \<Rightarrow> nat \<Rightarrow> nat \<Rightarrow> view \<Rightarrow> nat \<times> view" where
  "View_createChannel addr name p q st =
     (addr, st\<lparr>view_channels := (view_channels st)
                (addr := \<lparr>chan_Name = name, chan_Type = pin_Type (view_pins st p),
                          chan_Pins = [p, q], chan_created = True\<rparr>)\<rparr>)"

text \<open>
  Modelled from the spec: \<open>Channel.dragStart\<close> is not under src/. Section 4.4 says of a
  drag that starts on an attached pin: "if the Channel would retain >= 2 pins, the Channel
  persists and the other remaining endpoint becomes the new drag origin". The handler
  makes a pin that is still attached to the channel the dragged item; the spec does not
  say which one when several remain, and the first in the order of \<open>Pins\<close> is taken.
\<close>

definition Channel_dragStart :: "nat \<Rightarrow> real \<times> real \<Rightarrow> view \<Rightarrow> view" where
  "Channel_dragStart c e st =
     (case chan_Pins (view_channels st c) of
        q # _ \<Rightarrow> st\<lparr>view_dragItem := Some (DragPin q)\<rparr>
      | [] \<Rightarrow> st)"

text \<open>
  Modelled from the spec: \<open>Channel.commit\<close> is not under src/. In section 4.4 the drop
  issues the connect-request and "the local visual state (channel drawn, colored active)
  is applied immediately"; the spec names no other effect of the drop, so \<open>commit\<close> is
  taken to draw only and to leave the state of the model as it is.
\<close>

definition Channel_commit :: "nat \<Rightarrow> view \<Rightarrow> view" where
  "Channel_commit c st = st"

section \<open>Example states of the diagram\<close>

text \<open>
  Three nodes, at the addresses 0 ("Gen"), 1 ("Sum") and 2 ("Print"), and six pins, at
  the addresses 0 (A, output of Gen), 1 (B, input of Sum), 2 (C, input of Gen),
  3 (E, input of Print) and 4 (F, output of Gen), all of type int, and 5 (S, input of
  Sum) of type string.
  \<open>demo_view keys created cl\<close> is the diagram in which the pins \<open>keys\<close> are attached to
  the channel "channel0" (at address 0) and every other pin is free.
\<close>

definition demo_pins :: "nat \<Rightarrow> pin" where
  "demo_pins =
     (\<lambda>_. \<lparr>pin_Name = ''S'', pin_Type = ''string'', pin_input = True, pin_node = 1, pin_ch = None\<rparr>)
     (0 := \<lparr>pin_Name = ''A'', pin_Type = ''int'', pin_input = False, pin_node = 0, pin_ch = None\<rparr>,
      1 := \<lparr>pin_Name = ''B'', pin_Type = ''int'', pin_input = True, pin_node = 1, pin_ch = None\<rparr>,
      2 := \<lparr>pin_Name = ''C'', pin_Type = ''int'', pin_input = True, pin_node = 0, pin_ch = None\<rparr>,
      3 := \<lparr>pin_Name = ''E'', pin_Type = ''int'', pin_input = True, pin_node = 2, pin_ch = None\<rparr>,
      4 := \<lparr>pin_Name = ''F'', pin_Type = ''int'', pin_input = False, pin_node = 0, pin_ch = None\<rparr>)"

definition demo_nodes :: "nat \<Rightarrow> string" where
  "demo_nodes = (\<lambda>_. ''Print'')(0 := ''Gen'', 1 := ''Sum'')"

definition demo_label :: label where
  "demo_label = \<lparr>label_text = [], label_x = 0, label_y = 0, label_shown = False\<rparr>"

definition demo_view :: "nat list \<Rightarrow> bool \<Rightarrow> client \<Rightarrow> view" where
  "demo_view keys created cl =
     \<lparr>view_pins = (\<lambda>r. if r \<in> set keys then (demo_pins r)\<lparr>pin_ch := Some 0\<rparr> else demo_pins r),
      view_channels = (\<lambda>_. \<lparr>chan_Name = ''channel0'', chan_Type = ''int'', chan_Pins = keys,
                             chan_created = created\<rparr>),
      view_nodes = demo_nodes,
      view_FilePath = ''demo.szgo'',
      view_Channels = (if keys = [] then Map.empty else [''channel0'' \<mapsto> 0]),
      view_dragItem = None,
      view_errLabel = demo_label,
      view_client = cl,
      view_sent = [],
      view_goroutines = []\<rparr>"

definition ok :: client where
  "ok = (\<lambda>_. None)"

definition unavailable :: client where
  "unavailable = (\<lambda>_. Some ''unavailable'')"

section \<open>Properties of the graph controller\<close>

lemma uniqueName_fresh: "uniqueName nodes partType i name |\<notin>| fmdom nodes"
  by (induction nodes partType i name rule: uniqueName.induct) (subst uniqueName.simps, simp)

lemma uniqueName_form:
  "uniqueName nodes partType i name = name \<or>
   (\<exists>j. i \<le> j \<and> uniqueName nodes partType i name = partType @ '' '' @ Itoa j)"
proof (induction nodes partType i name rule: uniqueName.induct)
  case (1 nodes partType i name)
  show ?case
  proof (cases "name |\<notin>| fmdom nodes")
    case True
    then show ?thesis by (subst uniqueName.simps) simp
  next
    case False
    from "1.IH" [OF False] have
      "\<exists>j. i \<le> j \<and> uniqueName nodes partType (i + 1) (partType @ '' '' @ Itoa i) =
          partType @ '' '' @ Itoa j"
      by (metis Suc_eq_plus1 Suc_leD order_refl)
    with False show ?thesis by (subst (1 2) uniqueName.simps) simp
  qed
qed

text \<open>
  C10. \<open>SaveProperties\<close> is atomic with respect to the local graph. When the remote
  \<open>SetGraphProperties\<close> call succeeds, \<open>Name\<close>, \<open>PackagePath\<close> and \<open>IsCommand\<close> are set to the
  values read from the inputs (nothing else changes) and \<open>nil\<close> is returned; when the call
  returns an error, the graph is left as it was and that error is returned.
\<close>

theorem SaveProperties_atomic:
  "(cl (SetGraphPropertiesRequest (graph_FilePath g) name packagePath isCommand) = None \<longrightarrow>
      SaveProperties cl name packagePath isCommand g =
        (None, g\<lparr>graph_Name := name, graph_PackagePath := packagePath,
                  graph_IsCommand := isCommand\<rparr>)) \<and>
   (\<forall>err. cl (SetGraphPropertiesRequest (graph_FilePath g) name packagePath isCommand) = Some err \<longrightarrow>
      SaveProperties cl name packagePath isCommand g = (Some err, g))"
  by (simp add: SaveProperties_def)

theorem SaveProperties_atomic_witness:
  "SaveProperties (\<lambda>_. None) ''New'' ''pkg/new'' True demo_graph =
     (None, demo_graph\<lparr>graph_Name := ''New'', graph_PackagePath := ''pkg/new'',
                        graph_IsCommand := True\<rparr>) \<and>
   SaveProperties (\<lambda>_. Some ''unavailable'') ''New'' ''pkg/new'' True demo_graph =
     (Some ''unavailable'', demo_graph)"
  using SaveProperties_atomic [of "\<lambda>_. None" demo_graph "''New''" "''pkg/new''" True]
    SaveProperties_atomic [of "\<lambda>_. Some ''unavailable''" demo_graph "''New''" "''pkg/new''" True]
  by simp

text \<open>
  C9. For every part type and graph, \<open>CreateNode\<close> invents a name that is not a key of the
  graph's node map: the part type itself, or the part type, a space and the numeral of
  some \<open>i \<ge> 2\<close>. The graph is the same afterwards, whatever the remote call answers. A
  node that is returned has that name, \<open>Enabled\<close> and \<open>Wait\<close> true, \<open>Multiplicity\<close> 1 and the
  position (150, 150); with a registered part type that marshals, the node is returned
  exactly when the remote \<open>CreateNode\<close> call, which carries the invented name, succeeds,
  and its error is returned otherwise.
\<close>

theorem CreateNode_spec:
  fixes g :: "'p graph" and partType :: string
  defines "name \<equiv> uniqueName (graph_Nodes g) partType 2 partType"
  shows "name |\<notin>| fmdom (graph_Nodes g) \<and>
   (name = partType \<or> (\<exists>i. 2 \<le> i \<and> name = partType @ '' '' @ Itoa i)) \<and>
   snd (CreateNode cl PartTypes MarshalPart partType g) = g \<and>
   (\<forall>n. fst (CreateNode cl PartTypes MarshalPart partType g) = Inr n \<longrightarrow>
      node_Name n = name \<and> node_Enabled n \<and> node_Wait n \<and> node_Multiplicity n = 1 \<and>
      node_X n = 150 \<and> node_Y n = 150) \<and>
   (\<forall>pt pm. PartTypes partType = Some pt \<longrightarrow> MarshalPart pt = Inr pm \<longrightarrow>
      fst (CreateNode cl PartTypes MarshalPart partType g) =
        (case cl (CreateNodeRequest (graph_FilePath g)
                    \<lparr>cfg_Name = name, cfg_Enabled = True, cfg_Wait = True,
                     cfg_Multiplicity = 1, cfg_PartType = partType, cfg_PartCfg = pm\<rparr>) of
           None \<Rightarrow> Inr \<lparr>node_Name = name, node_Enabled = True, node_Wait = True,
                        node_Multiplicity = 1, node_Part = pt, node_X = 150, node_Y = 150\<rparr>
         | Some err \<Rightarrow> Inl (Error err)))"
proof -
  have "name |\<notin>| fmdom (graph_Nodes g)"
    unfolding name_def by (rule uniqueName_fresh)
  moreover have "name = partType \<or> (\<exists>i. 2 \<le> i \<and> name = partType @ '' '' @ Itoa i)"
    unfolding name_def by (rule uniqueName_form)
  moreover have "snd (CreateNode cl PartTypes MarshalPart partType g) = g"
    by (simp add: CreateNode_def Let_def split: option.split sum.split)
  moreover have "\<forall>n. fst (CreateNode cl PartTypes MarshalPart partType g) = Inr n \<longrightarrow>
      node_Name n = name \<and> node_Enabled n \<and> node_Wait n \<and> node_Multiplicity n = 1 \<and>
      node_X n = 150 \<and> node_Y n = 150"
    by (auto simp: CreateNode_def Let_def name_def split: option.splits sum.splits)
  moreover have "\<forall>pt pm. PartTypes partType = Some pt \<longrightarrow> MarshalPart pt = Inr pm \<longrightarrow>
      fst (CreateNode cl PartTypes MarshalPart partType g) =
        (case cl (CreateNodeRequest (graph_FilePath g)
                    \<lparr>cfg_Name = name, cfg_Enabled = True, cfg_Wait = True,
                     cfg_Multiplicity = 1, cfg_PartType = partType, cfg_PartCfg = pm\<rparr>) of
           None \<Rightarrow> Inr \<lparr>node_Name = name, node_Enabled = True, node_Wait = True,
                        node_Multiplicity = 1, node_Part = pt, node_X = 150, node_Y = 150\<rparr>
         | Some err \<Rightarrow> Inl (Error err))"
    by (simp add: CreateNode_def Let_def name_def split: option.split)
  ultimately show ?thesis by blast
qed

lemma demo_name: "uniqueName (graph_Nodes demo_graph) ''Gen'' 2 ''Gen'' = ''Gen 3''"
  by (simp add: demo_graph_def uniqueName.simps Itoa.simps digit_def)

theorem CreateNode_spec_witness:
  "''Gen 3'' |\<notin>| fmdom (graph_Nodes demo_graph) \<and>
   snd (CreateNode (\<lambda>_. None) [''Gen'' \<mapsto> ()] (\<lambda>_. Inr ''{}'') ''Gen'' demo_graph) = demo_graph \<and>
   fst (CreateNode (\<lambda>_. None) [''Gen'' \<mapsto> ()] (\<lambda>_. Inr ''{}'') ''Gen'' demo_graph) =
     Inr \<lparr>node_Name = ''Gen 3'', node_Enabled = True, node_Wait = True,
          node_Multiplicity = 1, node_Part = (), node_X = 150, node_Y = 150\<rparr> \<and>
   fst (CreateNode (\<lambda>_. Some ''unavailable'') [''Gen'' \<mapsto> ()] (\<lambda>_. Inr ''{}'') ''Gen'' demo_graph) =
     Inl (Error ''unavailable'') \<and>
   snd (CreateNode (\<lambda>_. Some ''unavailable'') [''Gen'' \<mapsto> ()] (\<lambda>_. Inr ''{}'') ''Gen'' demo_graph) =
     demo_graph"
  using CreateNode_spec [of demo_graph "''Gen''" "\<lambda>_. None" "[''Gen'' \<mapsto> ()]" "\<lambda>_. Inr ''{}''"]
    CreateNode_spec [of demo_graph "''Gen''" "\<lambda>_. Some ''unavailable''" "[''Gen'' \<mapsto> ()]" "\<lambda>_. Inr ''{}''"]
  by (simp add: demo_name)

section \<open>Properties of the diagram\<close>

subsection \<open>What the example states hold\<close>

lemma demo_view_simps:
  "view_pins (demo_view keys created cl) r =
     (if r \<in> set keys then (demo_pins r)\<lparr>pin_ch := Some 0\<rparr> else demo_pins r)"
  "view_channels (demo_view keys created cl) c =
     \<lparr>chan_Name = ''channel0'', chan_Type = ''int'', chan_Pins = keys, chan_created = created\<rparr>"
  "view_nodes (demo_view keys created cl) = demo_nodes"
  "view_FilePath (demo_view keys created cl) = ''demo.szgo''"
  "view_Channels (demo_view keys created cl) = (if keys = [] then Map.empty else [''channel0'' \<mapsto> 0])"
  "view_dragItem (demo_view keys created cl) = None"
  "view_errLabel (demo_view keys created cl) = demo_label"
  "view_client (demo_view keys created cl) = cl"
  "view_sent (demo_view keys created cl) = []"
  "view_goroutines (demo_view keys created cl) = []"
  by (simp_all add: demo_view_def)

subsection \<open>The connection validator\<close>

text \<open>
  C7. For all pins \<open>p\<close>, \<open>q\<close> with differing types, \<open>checkConnectionTo\<close> fails with the
  rejection "mismatching types [...]", whatever the directions and the nodes of the pins
  are and whether \<open>q\<close> is free or attached: the type check comes before the direction and
  same-task checks. Against a channel target the first check is the type check as well.
\<close>

theorem checkConnectionTo_type_mismatch:
  "(pin_Type (view_pins st q) \<noteq> pin_Type (view_pins st p) \<longrightarrow>
      checkConnectionTo st p (PinPoint q) =
        Some (''mismatching types ['' @ pin_Type (view_pins st p) @ '' != '' @
              pin_Type (view_pins st q) @ '']'')) \<and>
   (chan_Type (view_channels st c) \<noteq> pin_Type (view_pins st p) \<longrightarrow>
      checkConnectionTo st p (ChannelPoint c) =
        Some (''mismatching types ['' @ pin_Type (view_pins st p) @ '' != '' @
              chan_Type (view_channels st c) @ '']''))"
  by (simp add: Let_def)

text \<open>
  The witness: B against S and S against B (both inputs of Sum, so the directions and the
  node agree as well), S against the attached B, and S against the int channel.
\<close>

theorem checkConnectionTo_type_mismatch_witness:
  "checkConnectionTo (demo_view [] False ok) 1 (PinPoint 5) =
     Some ''mismatching types [int != string]'' \<and>
   checkConnectionTo (demo_view [] False ok) 5 (PinPoint 1) =
     Some ''mismatching types [string != int]'' \<and>
   checkConnectionTo (demo_view [0, 1] False ok) 5 (PinPoint 1) =
     Some ''mismatching types [string != int]'' \<and>
   checkConnectionTo (demo_view [0, 1] False ok) 5 (ChannelPoint 0) =
     Some ''mismatching types [string != int]''"
  using checkConnectionTo_type_mismatch [of "demo_view [] False ok" 5 1 0]
    checkConnectionTo_type_mismatch [of "demo_view [] False ok" 1 5 0]
    checkConnectionTo_type_mismatch [of "demo_view [0, 1] False ok" 1 5 0]
  by (simp add: demo_view_simps demo_pins_def)

text \<open>
  C8 as stated fails: A and F are both outputs of Gen and of the same type, F is free, and
  the rejection is the same-direction one, not the same-task one.
\<close>

theorem checkConnectionTo_same_node_counterexample:
  "pin_node (view_pins (demo_view [] False ok) 0) = pin_node (view_pins (demo_view [] False ok) 4) \<and>
   checkConnectionTo (demo_view [] False ok) 0 (PinPoint 4) =
     Some ''both pins have the same direction'' \<and>
   checkConnectionTo (demo_view [] False ok) 0 (PinPoint 4) \<noteq>
     Some ''both pins are on the same goroutine''"
  by (simp add: demo_view_simps demo_pins_def Let_def)

text \<open>
  C8, amended. For all pins \<open>p\<close>, \<open>q\<close> on the same node, where \<open>q\<close> is free,
  \<open>checkConnectionTo\<close> fails: with the same-task rejection "both pins are on the same
  goroutine" when the types are equal and the directions differ, with the type-mismatch
  rejection when the types differ, and with the same-direction rejection when the types
  are equal and the directions are equal.
\<close>

theorem checkConnectionTo_same_node:
  assumes "pin_node (view_pins st p) = pin_node (view_pins st q)"
    and "pin_ch (view_pins st q) = None"
  shows "checkConnectionTo st p (PinPoint q) =
     (if pin_Type (view_pins st q) \<noteq> pin_Type (view_pins st p) then
        Some (''mismatching types ['' @ pin_Type (view_pins st p) @ '' != '' @
              pin_Type (view_pins st q) @ '']'')
      else if pin_input (view_pins st p) = pin_input (view_pins st q) then
        Some ''both pins have the same direction''
      else Some ''both pins are on the same goroutine'')"
  using assms by (simp add: Let_def)

text \<open>
  The witness: A against C (output and input of Gen, both int), A against F (both
  outputs of Gen), and B against S (inputs of Sum, int and string).
\<close>

theorem checkConnectionTo_same_node_witness:
  "checkConnectionTo (demo_view [] False ok) 0 (PinPoint 2) =
     Some ''both pins are on the same goroutine'' \<and>
   checkConnectionTo (demo_view [] False ok) 0 (PinPoint 4) =
     Some ''both pins have the same direction'' \<and>
   checkConnectionTo (demo_view [] False ok) 1 (PinPoint 5) =
     Some ''mismatching types [int != string]''"
  using checkConnectionTo_same_node [of "demo_view [] False ok" 0 2]
    checkConnectionTo_same_node [of "demo_view [] False ok" 0 4]
    checkConnectionTo_same_node [of "demo_view [] False ok" 1 5]
  by (simp add: demo_view_simps demo_pins_def)

text \<open>
  C3 as stated fails: C (input of Gen) against A (output of Gen), where A is attached to
  the channel that joins it to B, is approved. The target is attached, so the validator
  checks \<open>p\<close> against the channel, and the channel check does not look at nodes.
\<close>

theorem checkConnectionTo_through_channel_counterexample:
  "pin_node (view_pins (demo_view [0, 1] False ok) 2) =
     pin_node (view_pins (demo_view [0, 1] False ok) 0) \<and>
   pin_ch (view_pins (demo_view [0, 1] False ok) 0) = Some 0 \<and>
   checkConnectionTo (demo_view [0, 1] False ok) 2 (PinPoint 0) = None"
  by (simp add: demo_view_simps demo_pins_def Let_def)

text \<open>
  C3, amended. For every pair of pins \<open>p\<close>, \<open>q\<close> of the same node: when \<open>q\<close> is free, the
  validator rejects joining them; when \<open>q\<close> is attached to a channel, the verdict is that
  of the type check of \<open>p\<close> against \<open>q\<close> followed by the check of \<open>p\<close> against that channel
  (its type, and one input and one output among its pins and \<open>p\<close>), in which the nodes play
  no part.
\<close>

theorem checkConnectionTo_same_node_free_or_channel:
  assumes "pin_node (view_pins st p) = pin_node (view_pins st q)"
  shows "(pin_ch (view_pins st q) = None \<longrightarrow> checkConnectionTo st p (PinPoint q) \<noteq> None) \<and>
   (\<forall>c. pin_ch (view_pins st q) = Some c \<longrightarrow>
      checkConnectionTo st p (PinPoint q) =
        (if pin_Type (view_pins st q) \<noteq> pin_Type (view_pins st p) then
           Some (''mismatching types ['' @ pin_Type (view_pins st p) @ '' != '' @
                 pin_Type (view_pins st q) @ '']'')
         else if chan_Type (view_channels st c) \<noteq> pin_Type (view_pins st p) then
           Some (''mismatching types ['' @ pin_Type (view_pins st p) @ '' != '' @
                 chan_Type (view_channels st c) @ '']'')
         else if list_all (\<lambda>r. pin_input (view_pins st r) = pin_input (view_pins st p))
                   (chan_Pins (view_channels st c)) then
           Some ''must connect at least one input and one output''
         else None))"
  using assms by (simp add: Let_def)

theorem checkConnectionTo_same_node_free_or_channel_witness:
  "checkConnectionTo (demo_view [] False ok) 2 (PinPoint 0) \<noteq> None \<and>
   checkConnectionTo (demo_view [] False ok) 4 (PinPoint 0) \<noteq> None \<and>
   checkConnectionTo (demo_view [0, 1] False ok) 2 (PinPoint 0) = None \<and>
   checkConnectionTo (demo_view [0, 3] False ok) 4 (PinPoint 0) = None \<and>
   checkConnectionTo (demo_view [1, 3] False ok) 2 (PinPoint 1) =
     Some ''must connect at least one input and one output''"
  using checkConnectionTo_same_node_free_or_channel [of "demo_view [] False ok" 2 0]
    checkConnectionTo_same_node_free_or_channel [of "demo_view [] False ok" 4 0]
    checkConnectionTo_same_node_free_or_channel [of "demo_view [0, 1] False ok" 2 0]
    checkConnectionTo_same_node_free_or_channel [of "demo_view [0, 3] False ok" 4 0]
  by (simp_all add: demo_view_simps demo_pins_def Let_def)

subsection \<open>What \<open>disconnect\<close> changes\<close>

lemma disconnect_free: "pin_ch (view_pins st p) = None \<Longrightarrow> disconnect p st = st"
  by (simp add: disconnect_def)

lemma disconnect_frame:
  "view_sent (disconnect p st) = view_sent st"
  "view_errLabel (disconnect p st) = view_errLabel st"
  "view_dragItem (disconnect p st) = view_dragItem st"
  "view_client (disconnect p st) = view_client st"
  "view_nodes (disconnect p st) = view_nodes st"
  "view_FilePath (disconnect p st) = view_FilePath st"
  by (simp_all add: disconnect_def Let_def go_def set_Pins_def set_ch_def fold_set_ch_rest
      split: option.split)

lemma disconnect_goroutines:
  "view_goroutines (disconnect p st) =
     view_goroutines st @ (if pin_ch (view_pins st p) = None then [] else [ReallyDisconnect p])"
  by (simp add: disconnect_def Let_def go_def set_Pins_def set_ch_def fold_set_ch_rest
      split: option.split)

lemma disconnect_self: "pin_ch (view_pins (disconnect p st) p) = None"
  by (simp add: disconnect_def Let_def set_ch_def split: option.split)

lemma disconnect_pins:
  "pin_ch (view_pins st p) = Some c \<Longrightarrow>
   view_pins (disconnect p st) r =
     (if r = p \<or> (len (removeAll p (chan_Pins (view_channels st c))) < 2 \<and>
                  r \<in> set (removeAll p (chan_Pins (view_channels st c))))
      then (view_pins st r)\<lparr>pin_ch := None\<rparr> else view_pins st r)"
  by (simp add: disconnect_def Let_def go_def set_Pins_def set_ch_def fold_set_ch_pins)

lemma disconnect_Channels:
  "pin_ch (view_pins st p) = Some c \<Longrightarrow>
   view_Channels (disconnect p st) =
     (if len (removeAll p (chan_Pins (view_channels st c))) < 2
      then (view_Channels st)(chan_Name (view_channels st c) := None) else view_Channels st)"
  by (simp add: disconnect_def Let_def go_def set_Pins_def set_ch_def fold_set_ch_rest)

lemma reallyDisconnect_sent:
  "view_sent (reallyDisconnect p st) =
     view_sent st @ [DisconnectPinRequest (view_FilePath st)
       (view_nodes st (pin_node (view_pins st p))) (pin_Name (view_pins st p))]"
  by (simp add: reallyDisconnect_def Let_def send_def setError_def clearError_def
      split: option.split)

lemma dragStart_free:
  "pin_ch (view_pins st p) = None \<Longrightarrow>
   dragStart h p e st = st\<lparr>view_dragItem := Some (DragPin p)\<rparr>"
  by (subst dragStart.simps) simp

text \<open>
  C6. After a pin is disconnected from its channel, the channel has lost that pin and the
  pin has no channel. If fewer than 2 pins stay attached, the channel is removed from the
  graph's channel map and each pin that stayed has an empty attachment; if at least 2
  stay, the graph's channel map is unchanged, so the channel survives in it, and no other
  pin changes.
\<close>

theorem disconnect_channel_lifecycle:
  assumes "pin_ch (view_pins st p) = Some c"
  shows "chan_Pins (view_channels (disconnect p st) c) =
      removeAll p (chan_Pins (view_channels st c)) \<and>
    pin_ch (view_pins (disconnect p st) p) = None \<and>
    (len (removeAll p (chan_Pins (view_channels st c))) < 2 \<longrightarrow>
       view_Channels (disconnect p st) =
         (view_Channels st)(chan_Name (view_channels st c) := None) \<and>
       (\<forall>q \<in> set (removeAll p (chan_Pins (view_channels st c))).
          pin_ch (view_pins (disconnect p st) q) = None)) \<and>
    (2 \<le> len (removeAll p (chan_Pins (view_channels st c))) \<longrightarrow>
       view_Channels (disconnect p st) = view_Channels st \<and>
       (\<forall>q. q \<noteq> p \<longrightarrow> view_pins (disconnect p st) q = view_pins st q))"
  using assms
  by (simp add: disconnect_Pins disconnect_self disconnect_Channels disconnect_pins)

text \<open>
  The witness: E leaves the channel of A, B and E, which survives with A and B; A leaves
  the channel of A and B, which is removed, and B is free afterwards.
\<close>

theorem disconnect_channel_lifecycle_witness:
  "chan_Pins (view_channels (disconnect 3 (demo_view [0, 1, 3] False ok)) 0) = [0, 1] \<and>
   view_Channels (disconnect 3 (demo_view [0, 1, 3] False ok)) ''channel0'' = Some 0 \<and>
   pin_ch (view_pins (disconnect 3 (demo_view [0, 1, 3] False ok)) 0) = Some 0 \<and>
   pin_ch (view_pins (disconnect 3 (demo_view [0, 1, 3] False ok)) 3) = None \<and>
   chan_Pins (view_channels (disconnect 0 (demo_view [0, 1] False ok)) 0) = [1] \<and>
   view_Channels (disconnect 0 (demo_view [0, 1] False ok)) ''channel0'' = None \<and>
   pin_ch (view_pins (disconnect 0 (demo_view [0, 1] False ok)) 1) = None \<and>
   pin_ch (view_pins (disconnect 0 (demo_view [0, 1] False ok)) 0) = None"
  using disconnect_channel_lifecycle [of "demo_view [0, 1, 3] False ok" 3 0]
    disconnect_channel_lifecycle [of "demo_view [0, 1] False ok" 0 0]
  by (simp add: demo_view_simps demo_pins_def len_def)

subsection \<open>The connect-request\<close>

text \<open>
  C1 as stated fails: A is dropped at (500, 300) on a newly created channel and the remote
  authority refuses the connect-request. The error label is at (4, -36), the place that
  \<open>setError\<close> gives a message anchored at (0, 0), and not at the place of a message
  anchored at the drop position.
\<close>

theorem reallyConnect_failure_counterexample:
  "view_goroutines (drop Channel_commit 0 (500, 300) (demo_view [0, 1] True unavailable)) = [ReallyConnect 0] \<and>
   map_option (\<lambda>st. (label_x (view_errLabel st), label_y (view_errLabel st)))
     (run (ReallyConnect 0) (drop Channel_commit 0 (500, 300) (demo_view [0, 1] True unavailable))) =
     Some (4, - 36) \<and>
   map_option (\<lambda>st. (label_x (view_errLabel st), label_y (view_errLabel st)))
     (run (ReallyConnect 0) (drop Channel_commit 0 (500, 300) (demo_view [0, 1] True unavailable))) \<noteq>
     Some (500 + 4, 300 - 36)"
  by (simp add: drop_def reallyConnect_def Let_def setError_def send_def clearError_def go_def
      Channel_commit_def demo_view_simps demo_pins_def demo_nodes_def unavailable_def)

text \<open>
  C1, amended. When the connect-request of an attached pin fails, the local mutation is
  not undone: the pins, the channels and the graph's channel map are as before (the view
  differs in the request log and the error label only). The error message "Couldn't
  connect: " followed by the failure text is shown, anchored at the fixed position (0, 0)
  (the label is moved to (4, -36)), wherever the pin was dropped.
\<close>

theorem reallyConnect_failure:
  assumes "pin_ch (view_pins st p) = Some c"
    and "view_client st
           (ConnectPinRequest (view_FilePath st) (view_nodes st (pin_node (view_pins st p)))
              (pin_Name (view_pins st p)) (chan_Name (view_channels st c))) = Some err"
  shows "reallyConnect p st =
     Some (st\<lparr>view_errLabel :=
                 \<lparr>label_text = ''Couldn't connect: '' @ err, label_x = 4, label_y = - 36,
                  label_shown = True\<rparr>,
               view_sent := view_sent st @
                 [ConnectPinRequest (view_FilePath st) (view_nodes st (pin_node (view_pins st p)))
                    (pin_Name (view_pins st p)) (chan_Name (view_channels st c))]\<rparr>)"
  using assms by (simp add: reallyConnect_def Let_def setError_def send_def)

theorem reallyConnect_failure_witness:
  "reallyConnect 0 (demo_view [0, 1] True unavailable) =
     Some ((demo_view [0, 1] True unavailable)
       \<lparr>view_errLabel :=
          \<lparr>label_text = ''Couldn't connect: unavailable'', label_x = 4, label_y = - 36,
           label_shown = True\<rparr>,
        view_sent := [ConnectPinRequest ''demo.szgo'' ''Gen'' ''A'' ''channel0'']\<rparr>)"
  using reallyConnect_failure [of "demo_view [0, 1] True unavailable" 0 0 "''unavailable''"]
  by (simp add: demo_view_simps demo_pins_def demo_nodes_def unavailable_def)

text \<open>
  C2 as stated fails: output pin A of "Gen" has been dragged onto input pin B of "Sum",
  the channel that joins them carries the \<open>created\<close> flag, and A, the dragged pin, is
  dropped. The request that the goroutine of the drop sends names "Gen" and "A", not
  "Sum" and "B".
\<close>

theorem drop_connect_request_counterexample:
  "map_option view_sent
     (run (ReallyConnect 0) (drop Channel_commit 0 (200, 100) (demo_view [0, 1] True ok))) =
     Some [ConnectPinRequest ''demo.szgo'' ''Gen'' ''A'' ''channel0''] \<and>
   map_option view_sent
     (run (ReallyConnect 0) (drop Channel_commit 0 (200, 100) (demo_view [0, 1] True ok))) \<noteq>
     Some [ConnectPinRequest ''demo.szgo'' ''Sum'' ''B'' ''channel0'']"
  by (simp add: drop_def reallyConnect_def Let_def setError_def send_def clearError_def go_def
      Channel_commit_def demo_view_simps demo_pins_def demo_nodes_def ok_def)

text \<open>
  The whole scenario of section 8 of the spec, from the free pins on, with \<open>nearestPoint\<close>
  finding B at squared distance 25: the same request.
\<close>

lemma scenario_request:
  "map_option view_sent
     (run (ReallyConnect 0)
        (drop Channel_commit 0 (200, 100)
           (drag (\<lambda>st x y. (25, PinPoint 1)) (View_createChannel 0 ''channel0'') 0 (200, 100)
              (dragStart Channel_dragStart 0 (80, 100) (demo_view [] False ok))))) =
   Some [ConnectPinRequest ''demo.szgo'' ''Gen'' ''A'' ''channel0'']"
  by (simp add: dragStart_free demo_view_simps demo_pins_def demo_nodes_def drag_def snapQuad_def
      Let_def View_createChannel_def set_ch_def clearError_def drop_def go_def reallyConnect_def
      send_def ok_def Channel_commit_def)

text \<open>
  C2, amended. When the pointer is released while the dragged pin is attached to a channel
  whose \<open>created\<close> flag is set, \<open>Pin.drop\<close> itself starts exactly one goroutine,
  \<open>reallyConnect\<close> of the dragged pin, sends nothing, and then hands the channel to
  \<open>Channel.commit\<close>, whatever that is. The goroutine sends exactly one connect-request,
  which carries the graph's file path, the dragged pin's node name, the dragged pin's name
  and the channel's name. When \<open>commit\<close> starts no goroutine, sends nothing and leaves
  pins, channels, nodes, file path and client as they are, this is the only goroutine and
  the only request of the drop. In the scenario where output pin A of "Gen" is dragged
  onto input pin B of "Sum", the request carries (graph, "Gen", "A", channel-name).
\<close>

theorem drop_connect_request:
  assumes "pin_ch (view_pins st p) = Some c" and "chan_created (view_channels st c)"
  shows "drop commit p e st = commit c (go (ReallyConnect p) (clearError st)) \<and>
    view_goroutines (go (ReallyConnect p) (clearError st)) =
      view_goroutines st @ [ReallyConnect p] \<and>
    view_sent (go (ReallyConnect p) (clearError st)) = view_sent st \<and>
    map_option view_sent (run (ReallyConnect p) (go (ReallyConnect p) (clearError st))) =
      Some (view_sent st @
        [ConnectPinRequest (view_FilePath st) (view_nodes st (pin_node (view_pins st p)))
           (pin_Name (view_pins st p)) (chan_Name (view_channels st c))]) \<and>
    ((\<forall>s. view_goroutines (commit c s) = view_goroutines s \<and>
          view_sent (commit c s) = view_sent s \<and>
          view_pins (commit c s) = view_pins s \<and>
          view_channels (commit c s) = view_channels s \<and>
          view_nodes (commit c s) = view_nodes s \<and>
          view_FilePath (commit c s) = view_FilePath s \<and>
          view_client (commit c s) = view_client s) \<longrightarrow>
     view_goroutines (drop commit p e st) = view_goroutines st @ [ReallyConnect p] \<and>
     view_sent (drop commit p e st) = view_sent st \<and>
     map_option view_sent (run (ReallyConnect p) (drop commit p e st)) =
       Some (view_sent st @
         [ConnectPinRequest (view_FilePath st) (view_nodes st (pin_node (view_pins st p)))
            (pin_Name (view_pins st p)) (chan_Name (view_channels st c))]))"
proof -
  let ?s = "go (ReallyConnect p) (clearError st)"
  have d: "drop commit p e st = commit c ?s"
    using assms by (simp add: drop_def Let_def clearError_def)
  have s: "view_goroutines ?s = view_goroutines st @ [ReallyConnect p]"
    "view_sent ?s = view_sent st" "view_pins ?s = view_pins st"
    "view_channels ?s = view_channels st" "view_nodes ?s = view_nodes st"
    "view_FilePath ?s = view_FilePath st" "view_client ?s = view_client st"
    by (simp_all add: go_def clearError_def)
  have r: "map_option view_sent (reallyConnect p s') =
      Some (view_sent st @
        [ConnectPinRequest (view_FilePath st) (view_nodes st (pin_node (view_pins st p)))
           (pin_Name (view_pins st p)) (chan_Name (view_channels st c))])"
    if "view_sent s' = view_sent st" "view_pins s' = view_pins st"
      "view_channels s' = view_channels st" "view_nodes s' = view_nodes st"
      "view_FilePath s' = view_FilePath st" for s'
    using that assms
    by (simp add: reallyConnect_def Let_def setError_def send_def clearError_def
        split: option.split)
  have r0: "map_option view_sent (run (ReallyConnect p) ?s) =
      Some (view_sent st @
        [ConnectPinRequest (view_FilePath st) (view_nodes st (pin_node (view_pins st p)))
           (pin_Name (view_pins st p)) (chan_Name (view_channels st c))])"
    using r [of ?s] s by simp
  have framed: "view_goroutines (drop commit p e st) = view_goroutines st @ [ReallyConnect p] \<and>
     view_sent (drop commit p e st) = view_sent st \<and>
     map_option view_sent (run (ReallyConnect p) (drop commit p e st)) =
       Some (view_sent st @
         [ConnectPinRequest (view_FilePath st) (view_nodes st (pin_node (view_pins st p)))
            (pin_Name (view_pins st p)) (chan_Name (view_channels st c))])"
    if f: "\<forall>s. view_goroutines (commit c s) = view_goroutines s \<and>
          view_sent (commit c s) = view_sent s \<and>
          view_pins (commit c s) = view_pins s \<and>
          view_channels (commit c s) = view_channels s \<and>
          view_nodes (commit c s) = view_nodes s \<and>
          view_FilePath (commit c s) = view_FilePath s \<and>
          view_client (commit c s) = view_client s"
  proof -
    from f s have "view_sent (commit c ?s) = view_sent st" "view_pins (commit c ?s) = view_pins st"
      "view_channels (commit c ?s) = view_channels st" "view_nodes (commit c ?s) = view_nodes st"
      "view_FilePath (commit c ?s) = view_FilePath st"
      "view_goroutines (commit c ?s) = view_goroutines st @ [ReallyConnect p]"
      by simp_all
    then show ?thesis
      unfolding d using r [of "commit c ?s"] by simp
  qed
  from d s(1,2) r0 framed show ?thesis
    by blast
qed

text \<open>
  The witness: A is dropped while attached to the flagged channel of A and B, with the
  \<open>commit\<close> that draws only.
\<close>

theorem drop_connect_request_witness:
  "view_goroutines (drop Channel_commit 0 (200, 100) (demo_view [0, 1] True ok)) =
     [ReallyConnect 0] \<and>
   view_sent (drop Channel_commit 0 (200, 100) (demo_view [0, 1] True ok)) = [] \<and>
   map_option view_sent
     (run (ReallyConnect 0) (drop Channel_commit 0 (200, 100) (demo_view [0, 1] True ok))) =
     Some [ConnectPinRequest ''demo.szgo'' ''Gen'' ''A'' ''channel0'']"
  using drop_connect_request [of "demo_view [0, 1] True ok" 0 0 Channel_commit "(200, 100)"]
  by (simp add: demo_view_simps demo_pins_def demo_nodes_def Channel_commit_def)

subsection \<open>Dragging\<close>

text \<open>
  C4 as stated fails: A is attached to the channel that joins it to B, and the cursor moves
  to where the nearest point is at squared distance 400. The branch detaches A through
  \<open>disconnect\<close>, which starts the goroutine \<open>reallyDisconnect\<close>, and that goroutine sends a
  disconnect-request to the remote authority.
\<close>

theorem drag_noSnap_counterexample:
  "view_goroutines (drag (\<lambda>st x y. (400, PinPoint 1)) (View_createChannel 1 ''channel1'') 0
       (300, 100) (demo_view [0, 1] True ok)) = [ReallyDisconnect 0] \<and>
   map_option view_sent (run (ReallyDisconnect 0)
     (drag (\<lambda>st x y. (400, PinPoint 1)) (View_createChannel 1 ''channel1'') 0
       (300, 100) (demo_view [0, 1] True ok))) =
     Some [DisconnectPinRequest ''demo.szgo'' ''Gen'' ''A'']"
  by (simp add: drag_def snapQuad_def noSnap_def clearError_def disconnect_goroutines
      disconnect_frame disconnect_pins reallyDisconnect_def Let_def send_def
      demo_view_simps demo_pins_def demo_nodes_def ok_def)

text \<open>
  C4, amended. On a drag-move event where the nearest connectable point is the dragged pin
  itself, or its squared distance from the cursor exceeds the snap threshold 144, the
  dragged pin is detached from the channel it was attached to (it has no channel
  afterwards and the channel has lost it), the handler sends no request itself and starts
  no connect-request; when the pin was attached, it starts one asynchronous
  disconnect-notification, and none otherwise.
\<close>

theorem drag_noSnap:
  assumes "snd (np st x y) = PinPoint p \<or> snapQuad < fst (np st x y)"
  shows "pin_ch (view_pins (drag np cc p (x, y) st) p) = None \<and>
    (\<forall>c. pin_ch (view_pins st p) = Some c \<longrightarrow>
       chan_Pins (view_channels (drag np cc p (x, y) st) c) =
         removeAll p (chan_Pins (view_channels st c))) \<and>
    view_sent (drag np cc p (x, y) st) = view_sent st \<and>
    view_goroutines (drag np cc p (x, y) st) =
      view_goroutines st @
        (if pin_ch (view_pins st p) = None then [] else [ReallyDisconnect p])"
proof -
  have d: "drag np cc p (x, y) st = noSnap p (clearError st)"
    using assms by (auto simp: drag_def split: prod.split)
  have n: "noSnap p (clearError st) = disconnect p (clearError st)"
    by (simp add: noSnap_def disconnect_free split: option.split)
  have c: "view_pins (clearError st) = view_pins st" "view_sent (clearError st) = view_sent st"
    "view_goroutines (clearError st) = view_goroutines st"
    "view_channels (clearError st) = view_channels st"
    by (simp_all add: clearError_def)
  show ?thesis
    unfolding d n
    by (simp add: disconnect_self disconnect_frame disconnect_goroutines c disconnect_Pins)
qed

text \<open>
  The witness: the attached A with the nearest point at squared distance 400, and the free
  A with itself as the nearest point.
\<close>

theorem drag_noSnap_witness:
  "pin_ch (view_pins (drag (\<lambda>st x y. (400, PinPoint 1)) (View_createChannel 1 ''channel1'') 0
       (300, 100) (demo_view [0, 1] True ok)) 0) = None \<and>
   chan_Pins (view_channels (drag (\<lambda>st x y. (400, PinPoint 1)) (View_createChannel 1 ''channel1'') 0
       (300, 100) (demo_view [0, 1] True ok)) 0) = [1] \<and>
   view_sent (drag (\<lambda>st x y. (400, PinPoint 1)) (View_createChannel 1 ''channel1'') 0
       (300, 100) (demo_view [0, 1] True ok)) = [] \<and>
   view_goroutines (drag (\<lambda>st x y. (400, PinPoint 1)) (View_createChannel 1 ''channel1'') 0
       (300, 100) (demo_view [0, 1] True ok)) = [ReallyDisconnect 0] \<and>
   view_goroutines (drag (\<lambda>st x y. (0, PinPoint 0)) (View_createChannel 1 ''channel1'') 0
       (80, 100) (demo_view [] False ok)) = []"
  using drag_noSnap [of "\<lambda>st x y. (400, PinPoint 1)" "demo_view [0, 1] True ok" 300 100 0
      "View_createChannel 1 ''channel1''"]
    drag_noSnap [of "\<lambda>st x y. (0, PinPoint 0)" "demo_view [] False ok" 80 100 0
      "View_createChannel 1 ''channel1''"]
  by (simp add: demo_view_simps demo_pins_def snapQuad_def noSnap_def clearError_def
      disconnect_Pins)

text \<open>
  C5. When a drag starts on a pin that is attached to a channel, the pin is detached
  locally (it is removed from the channel's pins and has no channel afterwards) and one
  asynchronous disconnect-notification is started, which sends the graph's file path, the
  pin's node name and the pin's name. If the channel keeps at least 2 pins, the graph's
  channel map is unchanged, so the channel persists, and the drag is handed to the
  channel's drag-start handler, whatever that handler is; with the handler that the spec
  describes, a pin that is still attached to the channel becomes the new drag origin.
  (If the channel keeps exactly one pin, it is removed from the graph and that pin
  becomes the drag origin; if it keeps none, the pin itself does.)
\<close>

theorem dragStart_attached:
  assumes "pin_ch (view_pins st p) = Some c"
  shows "chan_Pins (view_channels (disconnect p st) c) =
      removeAll p (chan_Pins (view_channels st c)) \<and>
    pin_ch (view_pins (disconnect p st) p) = None \<and>
    view_goroutines (disconnect p st) = view_goroutines st @ [ReallyDisconnect p] \<and>
    view_sent (reallyDisconnect p (disconnect p st)) =
      view_sent st @ [DisconnectPinRequest (view_FilePath st)
        (view_nodes st (pin_node (view_pins st p))) (pin_Name (view_pins st p))] \<and>
    (2 \<le> len (removeAll p (chan_Pins (view_channels st c))) \<longrightarrow>
       dragStart h p e st = h c e (disconnect p st) \<and>
       view_Channels (disconnect p st) = view_Channels st \<and>
       (\<exists>q. q \<in> set (removeAll p (chan_Pins (view_channels st c))) \<and>
          dragStart Channel_dragStart p e st =
            (disconnect p st)\<lparr>view_dragItem := Some (DragPin q)\<rparr>)) \<and>
    (\<forall>q keys. \<not> 1 < len (removeAll p (chan_Pins (view_channels st c))) \<and>
       removeAll p (chan_Pins (view_channels st c)) = q # keys \<longrightarrow>
       dragStart h p e st = (disconnect p st)\<lparr>view_dragItem := Some (DragPin q)\<rparr> \<and>
       view_Channels (disconnect p st) =
         (view_Channels st)(chan_Name (view_channels st c) := None)) \<and>
    (removeAll p (chan_Pins (view_channels st c)) = [] \<longrightarrow>
       dragStart h p e st = (disconnect p st)\<lparr>view_dragItem := Some (DragPin p)\<rparr>)"
proof -
  let ?rest = "removeAll p (chan_Pins (view_channels st c))"
  let ?st' = "disconnect p st"
  have P: "chan_Pins (view_channels ?st' c) = ?rest"
    using assms by (rule disconnect_Pins)
  have sent: "view_sent (reallyDisconnect p ?st') =
      view_sent st @ [DisconnectPinRequest (view_FilePath st)
        (view_nodes st (pin_node (view_pins st p))) (pin_Name (view_pins st p))]"
    using assms by (simp add: reallyDisconnect_sent disconnect_frame disconnect_pins)
  have handed: "dragStart h' p e st = h' c e ?st' \<and> view_Channels ?st' = view_Channels st"
    if "2 \<le> len ?rest" for h'
    using assms that by (subst dragStart.simps) (simp add: P disconnect_Channels)
  have origin: "\<exists>q. q \<in> set ?rest \<and>
      dragStart Channel_dragStart p e st = ?st'\<lparr>view_dragItem := Some (DragPin q)\<rparr>"
    if two: "2 \<le> len ?rest"
  proof -
    have "len [] = 0"
      by (simp add: len_def)
    with two have "?rest \<noteq> []"
      by (metis not_numeral_le_zero)
    then obtain q keys where q: "?rest = q # keys"
      by (cases ?rest) auto
    then have "Channel_dragStart c e ?st' = ?st'\<lparr>view_dragItem := Some (DragPin q)\<rparr>"
      by (simp add: Channel_dragStart_def P)
    moreover from q have "q \<in> set ?rest"
      by simp
    ultimately show ?thesis
      using handed [OF two, of Channel_dragStart] by auto
  qed
  from handed [of h] origin have many: "2 \<le> len ?rest \<longrightarrow>
      dragStart h p e st = h c e ?st' \<and> view_Channels ?st' = view_Channels st \<and>
      (\<exists>q. q \<in> set ?rest \<and>
         dragStart Channel_dragStart p e st = ?st'\<lparr>view_dragItem := Some (DragPin q)\<rparr>)"
    by blast
  have one: "dragStart h p e st = ?st'\<lparr>view_dragItem := Some (DragPin q)\<rparr> \<and>
      view_Channels ?st' = (view_Channels st)(chan_Name (view_channels st c) := None)"
    if "\<not> 1 < len ?rest" "?rest = q # keys" for q keys
  proof -
    from that have "pin_ch (view_pins ?st' q) = None"
      using assms by (intro disconnect_nils [of st p c]) simp_all
    then have "dragStart h q e ?st' = ?st'\<lparr>view_dragItem := Some (DragPin q)\<rparr>"
      by (rule dragStart_free)
    with that assms show ?thesis
      by (subst dragStart.simps) (simp add: P disconnect_Channels)
  qed
  then have one': "\<forall>q keys. \<not> 1 < len ?rest \<and> ?rest = q # keys \<longrightarrow>
      dragStart h p e st = ?st'\<lparr>view_dragItem := Some (DragPin q)\<rparr> \<and>
      view_Channels ?st' = (view_Channels st)(chan_Name (view_channels st c) := None)"
    by blast
  have none: "?rest = [] \<longrightarrow> dragStart h p e st = ?st'\<lparr>view_dragItem := Some (DragPin p)\<rparr>"
    using assms by (subst dragStart.simps) (simp add: P len_def)
  have self: "pin_ch (view_pins ?st' p) = None"
    by (rule disconnect_self)
  have started: "view_goroutines ?st' = view_goroutines st @ [ReallyDisconnect p]"
    using assms by (simp add: disconnect_goroutines)
  from P self started sent many one' none show ?thesis
    by (intro conjI)
qed

text \<open>
  The witness: a drag that starts on A of the channel of A, B and E leaves the channel in
  the graph with B and E, starts the disconnect-notification of A and makes B the drag
  origin; on A of the channel of A and B it removes the channel and makes B the drag
  origin.
\<close>

theorem dragStart_attached_witness:
  "view_dragItem (dragStart Channel_dragStart 0 (80, 100) (demo_view [0, 1, 3] False ok)) =
     Some (DragPin 1) \<and>
   chan_Pins (view_channels
     (dragStart Channel_dragStart 0 (80, 100) (demo_view [0, 1, 3] False ok)) 0) = [1, 3] \<and>
   view_Channels (dragStart Channel_dragStart 0 (80, 100) (demo_view [0, 1, 3] False ok))
     ''channel0'' = Some 0 \<and>
   view_goroutines (dragStart Channel_dragStart 0 (80, 100) (demo_view [0, 1, 3] False ok)) =
     [ReallyDisconnect 0] \<and>
   view_sent (reallyDisconnect 0 (disconnect 0 (demo_view [0, 1, 3] False ok))) =
     [DisconnectPinRequest ''demo.szgo'' ''Gen'' ''A''] \<and>
   view_dragItem (dragStart Channel_dragStart 0 (80, 100) (demo_view [0, 1] False ok)) =
     Some (DragPin 1) \<and>
   view_Channels (dragStart Channel_dragStart 0 (80, 100) (demo_view [0, 1] False ok))
     ''channel0'' = None"
  using dragStart_attached [of "demo_view [0, 1, 3] False ok" 0 0 Channel_dragStart "(80, 100)"]
    dragStart_attached [of "demo_view [0, 1] False ok" 0 0 Channel_dragStart "(80, 100)"]
  by (simp add: demo_view_simps demo_pins_def demo_nodes_def len_def Channel_dragStart_def)

end
